theory Spec2Isabelle
  imports Main "HOL-Library.Sublist" "HOL-Library.Char_ord" "HOL-Library.List_Lexorder"
begin

section \<open>Strings of the assistant\<close>

text \<open>
  The program is \<^verbatim>\<open>src/assistente_normas/assistant.py\<close>. Python's \<^verbatim>\<open>str\<close> is
  modelled by \<^typ>\<open>string\<close>, one \<^typ>\<open>char\<close> per code point, so the model covers the
  code points below 256 (Latin-1, which holds every accented letter of the program's
  own messages). The order on strings is Python's: lexicographic by code point.
\<close>

definition is_space :: "char \<Rightarrow> bool" where
  \<comment> \<open>\<^verbatim>\<open>str.isspace\<close> on one character, which is also what \<^verbatim>\<open>\s\<close> matches in a
      \<^verbatim>\<open>str\<close> pattern: TAB, LF, VT, FF, CR, FS, GS, RS, US, SPACE, NEL, NBSP.\<close>
  "is_space c \<longleftrightarrow>
     c \<in> set [CHR 0x09, CHR 0x0A, CHR 0x0B, CHR 0x0C, CHR 0x0D, CHR 0x1C, CHR 0x1D,
              CHR 0x1E, CHR 0x1F, CHR 0x20, CHR 0x85, CHR 0xA0]"

definition strip :: "string \<Rightarrow> string" where
  \<comment> \<open>\<^verbatim>\<open>s.strip()\<close>\<close>
  "strip s = rev (dropWhile is_space (rev (dropWhile is_space s)))"

definition trimmed :: "string \<Rightarrow> bool" where
  \<comment> \<open>no space at either end\<close>
  "trimmed s \<longleftrightarrow> s = [] \<or> (\<not> is_space (hd s) \<and> \<not> is_space (last s))"

definition lower_char :: "char \<Rightarrow> char" where
  \<comment> \<open>\<^verbatim>\<open>str.lower\<close> on one character: A-Z, and the Latin-1 capitals 0xC0-0xDE
      other than the multiplication sign 0xD7, move up by 32.\<close>
  "lower_char c =
     (let n = (of_char c :: nat)
      in if (65 \<le> n \<and> n \<le> 90) \<or> (192 \<le> n \<and> n \<le> 222 \<and> n \<noteq> 215)
         then char_of (n + 32) else c)"

definition lower :: "string \<Rightarrow> string" where
  \<comment> \<open>\<^verbatim>\<open>s.lower()\<close>\<close>
  "lower s = map lower_char s"

fun join :: "string \<Rightarrow> string list \<Rightarrow> string" where
  \<comment> \<open>\<^verbatim>\<open>sep.join(parts)\<close>\<close>
  "join sep [] = []"
| "join sep [x] = x"
| "join sep (x # y # ys) = x @ sep @ join sep (y # ys)"

definition basename :: "string \<Rightarrow> string" where
  \<comment> \<open>\<^verbatim>\<open>os.path.basename\<close> of \<^verbatim>\<open>posixpath\<close>: what follows the last slash.\<close>
  "basename p = rev (takeWhile (\<lambda>c. c \<noteq> CHR ''/'') (rev p))"

definition not_found_answer :: string where
  \<comment> \<open>the sentence the prompt asks for when the context has no answer, "Nao encontrei
      essa informacao nas normas disponiveis.", with its accented letters as the code
      points 0xE3, 0xE7 and 0xED\<close>
  "not_found_answer =
     ''N'' @ [CHR 0xE3] @ ''o encontrei essa informa'' @ [CHR 0xE7, CHR 0xE3]
       @ ''o nas normas dispon'' @ [CHR 0xED] @ ''veis.''"

definition error_answer :: string where
  "error_answer = ''Ocorreu um erro ao processar sua pergunta. Por favor, tente novamente.''"

definition unknown_source :: string where
  \<comment> \<open>the default of \<^verbatim>\<open>doc.metadata.get('source', 'desconhecida')\<close>\<close>
  "unknown_source = ''desconhecida''"

definition fonte :: "string \<Rightarrow> string" where
  \<comment> \<open>\<^verbatim>\<open>f"(Fonte: {source_citation})"\<close>\<close>
  "fonte source_citation = ''(Fonte: '' @ source_citation @ '')''"

definition no_origin_citation :: string where
  \<comment> \<open>"(Fonte: Origem nao identificada nos metadados)", with 0xE3 for the accented
      letter\<close>
  "no_origin_citation = fonte (''Origem n'' @ [CHR 0xE3] @ ''o identificada nos metadados'')"

section \<open>The substitution that removes a trailing citation\<close>

text \<open>
  \<^verbatim>\<open>re.sub(r"\s*\(Fonte: [^\)]+\)\s*$", "", answer)\<close>.
  Every piece of the pattern is deterministic: \<^verbatim>\<open>\s*\<close> is followed by a character that
  is no space, and \<^verbatim>\<open>[^\)]+\<close> by the one character it excludes, so a match that begins
  at a position exists exactly when the rest of the text, from there, is spaces, the
  opening \<^verbatim>\<open>(Fonte: \<close>, one or more characters other than \<^verbatim>\<open>)\<close>, one \<^verbatim>\<open>)\<close>, and spaces
  up to the end. \<^verbatim>\<open>re.sub\<close> replaces the leftmost match, which reaches the end of the
  text, so nothing is left to replace after it.
\<close>

definition match_citation_here :: "string \<Rightarrow> bool" where
  \<comment> \<open>the pattern matches the whole of the text given, from its first character\<close>
  "match_citation_here s =
     (let s1 = dropWhile is_space s
      in prefix ''(Fonte: '' s1 \<and>
         (let s2 = drop (length ''(Fonte: '') s1;
              body = takeWhile (\<lambda>c. c \<noteq> CHR '')'') s2;
              s3 = dropWhile (\<lambda>c. c \<noteq> CHR '')'') s2
          in body \<noteq> [] \<and> s3 \<noteq> [] \<and> list_all is_space (tl s3)))"

fun re_sub_citation :: "string \<Rightarrow> string" where
  "re_sub_citation [] = []"
| "re_sub_citation (c # cs) =
     (if match_citation_here (c # cs) then [] else c # re_sub_citation cs)"

definition trailing_citation :: "string \<Rightarrow> bool" where
  \<comment> \<open>the texts of the pattern, said without the matcher: spaces, the opening, a body
      that is not empty and has no closing parenthesis, the closing parenthesis, spaces\<close>
  "trailing_citation t \<longleftrightarrow>
     (\<exists>l b r. t = l @ ''(Fonte: '' @ b @ '')'' @ r \<and> list_all is_space l
              \<and> list_all is_space r \<and> b \<noteq> [] \<and> CHR '')'' \<notin> set b)"

section \<open>Documents, the chain and the log\<close>

text \<open>
  A chain is what \<^verbatim>\<open>chain.invoke({"query": query})\<close> does with a query: it raises, or
  it returns a dictionary, of which the program reads the keys \<^verbatim>\<open>result\<close> (a text) and
  \<^verbatim>\<open>source_documents\<close> (a list of documents), either of which may be absent. The log and
  the standard output are one list of events, in the order of the calls: one constructor
  of \<open>message\<close> for each call of \<^verbatim>\<open>logging\<close> in the program, with the values it
  formats, \<open>Print\<close> for \<^verbatim>\<open>print\<close> and \<open>Prompt\<close> for the prompt of \<^verbatim>\<open>input\<close>.
\<close>

record document =
  page_content :: string
  metadata :: "string \<rightharpoonup> string"

record chain_result =
  \<comment> \<open>the dictionary \<^verbatim>\<open>chain.invoke\<close> returns; a key may be absent\<close>
  result :: "string option"
  source_documents :: "document list option"

datatype exn =
  ValueError string
  | EOFError
  | OtherException string

type_synonym chain = "string \<Rightarrow> exn + chain_result"

datatype level = INFO | WARNING | ERROR

datatype message =
  Processing_query string
  | Answer_not_found
  | Answer_generated string
  | Sources_not_in_metadata
  | No_source_documents
  | Query_failed exn
  | Docs_dir_not_found string
  | Docs_dir_empty string
  | Loading_documents string
  | Documents_loaded nat
  | No_document_loaded
  | Load_failed exn
  | Nothing_to_split
  | Splitting nat nat
  | Documents_split nat
  | Store_dir_created string
  | Loading_store string
  | Store_loaded
  | Store_load_failed exn
  | No_split_docs
  | Creating_store
  | Store_created
  | Store_saved string
  | Store_create_failed exn
  | Initializing_llm string
  | Initializing_embeddings string
  | Configuring_chain
  | Chain_configured
  | Starting
  | No_documents string
  | Store_will_be_loaded
  | Split_failed
  | Embeddings_failed exn
  | Store_setup_failed exn
  | Llm_failed exn

datatype event =
  Log level message
  | Print string
  | Prompt string

section \<open>ask\_question\<close>

definition collect_sources :: "document list \<Rightarrow> string set" where
  \<comment> \<open>the loop that fills the set \<^verbatim>\<open>sources\<close>\<close>
  "collect_sources source_docs =
     fold (\<lambda>doc sources.
             let source_name = (case metadata doc ''source'' of
                                  None \<Rightarrow> unknown_source | Some s \<Rightarrow> s)
             in insert (basename source_name) sources)
          source_docs {}"

definition ask_question :: "chain \<Rightarrow> string \<Rightarrow> event list \<times> string" where
  "ask_question chain query =
     (case chain query of
        Inl e \<Rightarrow>
          ([Log INFO (Processing_query query), Log ERROR (Query_failed e)], error_answer)
      | Inr res \<Rightarrow>
          let answer = strip (case result res of None \<Rightarrow> [] | Some a \<Rightarrow> a);
              source_docs = (case source_documents res of None \<Rightarrow> [] | Some ds \<Rightarrow> ds)
          in if answer = not_found_answer
             then ([Log INFO (Processing_query query), Log INFO Answer_not_found], answer)
             else if source_docs \<noteq> []
             then
               let sources = collect_sources source_docs
               in if sources \<noteq> {}
                  then
                    let source_citation = join '', '' (sorted_list_of_set sources);
                        final_answer =
                          (if \<not> sublist (fonte source_citation) answer
                           then answer @ [CHR 0x0A] @ fonte source_citation
                           else strip (re_sub_citation answer)
                                  @ [CHR 0x0A] @ fonte source_citation)
                    in ([Log INFO (Processing_query query),
                         Log INFO (Answer_generated final_answer)], final_answer)
                  else ([Log INFO (Processing_query query),
                         Log WARNING Sources_not_in_metadata],
                        answer @ [CHR 0x0A] @ no_origin_citation)
             else ([Log INFO (Processing_query query), Log WARNING No_source_documents],
                   answer))"

section \<open>Configuration\<close>

definition DOCS_PATH :: string where
  "DOCS_PATH = ''docs''"

definition VECTORSTORE_PATH :: string where
  "VECTORSTORE_PATH = ''vectorstore/faiss_index''"

definition MODEL_NAME :: string where
  "MODEL_NAME = ''gpt-4''"

definition EMBEDDING_MODEL_NAME :: string where
  "EMBEDDING_MODEL_NAME = ''text-embedding-ada-002''"

definition CHUNK_SIZE :: nat where
  "CHUNK_SIZE = 1500"

definition CHUNK_OVERLAP :: nat where
  "CHUNK_OVERLAP = 200"

section \<open>The libraries and the file system\<close>

text \<open>
  The program calls LangChain, FAISS, OpenAI and the operating system. What they return
  is not the program's to decide, so the model takes it as a parameter: a record with
  one field per call, whose value is the call's outcome, \<open>Inl\<close> or \<open>Some\<close> of an
  exception where the call can raise one (an instance of \<^verbatim>\<open>Exception\<close>; \<^verbatim>\<open>ValueError\<close>
  stands for that class and its subclasses, with the text of \<^verbatim>\<open>str(e)\<close>). The file
  system is the set of paths that exist: \<^verbatim>\<open>os.makedirs\<close> and \<^verbatim>\<open>save_local\<close> add a
  path when they succeed, \<^verbatim>\<open>shutil.rmtree\<close> removes one, and a call that raises leaves
  the set as it was.
\<close>

datatype embeddings = OpenAIEmbeddings string

datatype llm = ChatOpenAI string

datatype vectorstore = FAISS "document list"

record ext =
  isdir :: "string \<Rightarrow> bool"
  listdir :: "string \<Rightarrow> exn + string list"
  loader_load :: "string \<Rightarrow> exn + document list"
  split_text :: "nat \<Rightarrow> nat \<Rightarrow> document list \<Rightarrow> document list"
  makedirs :: "string \<Rightarrow> exn option"
  load_local :: "string \<Rightarrow> embeddings \<Rightarrow> exn + vectorstore"
  rmtree :: "string \<Rightarrow> exn option"
  from_documents :: "document list \<Rightarrow> embeddings \<Rightarrow> exn + vectorstore"
  save_local :: "vectorstore \<Rightarrow> string \<Rightarrow> exn option"
  new_embeddings :: "string \<Rightarrow> exn option"
  new_llm :: "string \<Rightarrow> exn option"
  retrieval_qa :: "llm \<Rightarrow> vectorstore \<Rightarrow> chain"

type_synonym fs = "string set"

definition dirname :: "string \<Rightarrow> string" where
  \<comment> \<open>\<^verbatim>\<open>os.path.dirname\<close> of \<^verbatim>\<open>posixpath\<close>: the text up to the last slash, without its
      trailing slashes unless it is slashes only.\<close>
  "dirname p =
     (let head = take (length p - length (basename p)) p
      in if head \<noteq> [] \<and> \<not> list_all (\<lambda>c. c = CHR ''/'') head
         then rev (dropWhile (\<lambda>c. c = CHR ''/'') (rev head)) else head)"

section \<open>Loading and splitting\<close>

definition load_documents :: "ext \<Rightarrow> string \<Rightarrow> event list \<times> (exn + document list)" where
  "load_documents x directory_path =
     (if \<not> isdir x directory_path
      then ([Log ERROR (Docs_dir_not_found directory_path)], Inr [])
      else case listdir x directory_path of
             Inl e \<Rightarrow> ([], Inl e)
           | Inr names \<Rightarrow>
               if names = []
               then ([Log WARNING (Docs_dir_empty directory_path)], Inr [])
               else (case loader_load x directory_path of
                       Inr documents \<Rightarrow>
                         ([Log INFO (Loading_documents directory_path),
                           Log INFO (Documents_loaded (length documents))]
                            @ (if documents = [] then [Log WARNING No_document_loaded] else []),
                          Inr documents)
                     | Inl e \<Rightarrow>
                         ([Log INFO (Loading_documents directory_path),
                           Log ERROR (Load_failed e)], Inr [])))"

definition split_documents ::
  "ext \<Rightarrow> document list \<Rightarrow> nat \<Rightarrow> nat \<Rightarrow> event list \<times> document list" where
  "split_documents x documents chunk_size chunk_overlap =
     (if documents = [] then ([Log WARNING Nothing_to_split], [])
      else let split_docs = split_text x chunk_size chunk_overlap documents
           in ([Log INFO (Splitting chunk_size chunk_overlap),
                Log INFO (Documents_split (length split_docs))], split_docs))"

section \<open>The vector store\<close>

definition value_error_text :: string where
  \<comment> \<open>the text of the \<^verbatim>\<open>ValueError\<close> raised for an empty list of chunks, with its
      accents as the code points 0xE3, 0xE9 and 0xED\<close>
  "value_error_text =
     ''N'' @ [CHR 0xE3] @ ''o '' @ [CHR 0xE9] @ '' poss'' @ [CHR 0xED]
       @ ''vel criar um vector store sem documentos.''"

definition new_vectorstore ::
  "ext \<Rightarrow> fs \<Rightarrow> document list \<Rightarrow> embeddings \<Rightarrow> string
     \<Rightarrow> (event list \<times> fs) \<times> (exn + vectorstore)" where
  \<comment> \<open>the end of \<^verbatim>\<open>create_or_load_vectorstore\<close>, from the test of \<^verbatim>\<open>split_docs\<close> on\<close>
  "new_vectorstore x files split_docs emb store_path =
     (if split_docs = []
      then (([Log ERROR No_split_docs], files), Inl (ValueError value_error_text))
      else case from_documents x split_docs emb of
             Inl e \<Rightarrow>
               (([Log INFO Creating_store, Log ERROR (Store_create_failed e)], files), Inl e)
           | Inr vs \<Rightarrow>
               (case save_local x vs store_path of
                  Some e \<Rightarrow>
                    (([Log INFO Creating_store, Log INFO Store_created,
                       Log ERROR (Store_create_failed e)], files), Inl e)
                | None \<Rightarrow>
                    (([Log INFO Creating_store, Log INFO Store_created,
                       Log INFO (Store_saved store_path)], insert store_path files),
                     Inr vs)))"

definition load_or_new_vectorstore ::
  "ext \<Rightarrow> fs \<Rightarrow> document list \<Rightarrow> embeddings \<Rightarrow> string
     \<Rightarrow> (event list \<times> fs) \<times> (exn + vectorstore)" where
  \<comment> \<open>\<^verbatim>\<open>create_or_load_vectorstore\<close> once the directory of the store exists\<close>
  "load_or_new_vectorstore x files split_docs emb store_path =
     (if store_path \<in> files
      then case load_local x store_path emb of
             Inr vs \<Rightarrow>
               (([Log INFO (Loading_store store_path), Log INFO Store_loaded], files), Inr vs)
           | Inl e \<Rightarrow>
               (case rmtree x store_path of
                  Some e' \<Rightarrow>
                    (([Log INFO (Loading_store store_path),
                       Log ERROR (Store_load_failed e)], files), Inl e')
                | None \<Rightarrow>
                    (case new_vectorstore x (files - {store_path}) split_docs emb store_path of
                       ((evs, files'), r) \<Rightarrow>
                         (([Log INFO (Loading_store store_path),
                            Log ERROR (Store_load_failed e)] @ evs, files'), r)))
      else new_vectorstore x files split_docs emb store_path)"

definition create_or_load_vectorstore ::
  "ext \<Rightarrow> fs \<Rightarrow> document list \<Rightarrow> embeddings \<Rightarrow> string
     \<Rightarrow> (event list \<times> fs) \<times> (exn + vectorstore)" where
  "create_or_load_vectorstore x files split_docs emb store_path =
     (let store_dir = dirname store_path
      in if store_dir \<notin> files
         then case makedirs x store_dir of
                Some e \<Rightarrow> (([], files), Inl e)
              | None \<Rightarrow>
                  (case load_or_new_vectorstore x (insert store_dir files)
                          split_docs emb store_path of
                     ((evs, files'), r) \<Rightarrow>
                       ((Log INFO (Store_dir_created store_dir) # evs, files'), r))
         else load_or_new_vectorstore x files split_docs emb store_path)"

section \<open>The models and the chain\<close>

definition initialize_llm :: "ext \<Rightarrow> string \<Rightarrow> event list \<times> (exn + llm)" where
  "initialize_llm x model_name =
     ([Log INFO (Initializing_llm model_name)],
      case new_llm x model_name of Some e \<Rightarrow> Inl e | None \<Rightarrow> Inr (ChatOpenAI model_name))"

definition initialize_embeddings :: "ext \<Rightarrow> string \<Rightarrow> event list \<times> (exn + embeddings)" where
  "initialize_embeddings x embedding_model_name =
     ([Log INFO (Initializing_embeddings embedding_model_name)],
      case new_embeddings x embedding_model_name of
        Some e \<Rightarrow> Inl e | None \<Rightarrow> Inr (OpenAIEmbeddings embedding_model_name))"

definition setup_qa_chain :: "ext \<Rightarrow> llm \<Rightarrow> vectorstore \<Rightarrow> event list \<times> chain" where
  "setup_qa_chain x l vs =
     ([Log INFO Configuring_chain, Log INFO Chain_configured], retrieval_qa x l vs)"

section \<open>main\<close>

text \<open>
  \<^verbatim>\<open>main\<close> returns, or an exception that nothing catches ends it. \<^verbatim>\<open>input\<close> reads the
  next line of the standard input, given as a list of lines, and raises \<^verbatim>\<open>EOFError\<close>
  when none is left.
\<close>

datatype outcome = Returned | Uncaught exn

definition farewell :: string where
  \<comment> \<open>"Encerrando o assistente. Ate logo!", with 0xE9 for the accented letter\<close>
  "farewell = ''Encerrando o assistente. At'' @ [CHR 0xE9] @ '' logo!''"

definition please_ask :: string where
  "please_ask = ''Por favor, digite uma pergunta.''"

definition question_prompt :: string where
  "question_prompt = [CHR 0x0A] @ ''Sua pergunta: ''"

definition assistant_says :: "string \<Rightarrow> string" where
  \<comment> \<open>\<^verbatim>\<open>f"\nAssistente: {response}"\<close>\<close>
  "assistant_says response = [CHR 0x0A] @ ''Assistente: '' @ response"

fun main_loop :: "chain \<Rightarrow> string list \<Rightarrow> event list \<times> outcome" where
  \<comment> \<open>the \<^verbatim>\<open>while True\<close> of \<^verbatim>\<open>main\<close>\<close>
  "main_loop qa_chain [] = ([Prompt question_prompt], Uncaught EOFError)"
| "main_loop qa_chain (query # rest) =
     (if strip (lower query) = ''sair''
      then ([Prompt question_prompt, Print farewell], Returned)
      else if strip query = []
      then (case main_loop qa_chain rest of
              (evs, out) \<Rightarrow> (Prompt question_prompt # Print please_ask # evs, out))
      else (case ask_question qa_chain query of
              (logs, response) \<Rightarrow>
                (case main_loop qa_chain rest of
                   (evs, out) \<Rightarrow>
                     (Prompt question_prompt # logs @ Print (assistant_says response) # evs,
                      out))))"

definition docs_error :: string where
  "docs_error =
     ''Erro: Verifique se a pasta '' @ [CHR 0x27] @ DOCS_PATH @ [CHR 0x27]
       @ '' existe e cont'' @ [CHR 0xE9] @ ''m arquivos PDF v'' @ [CHR 0xE1] @ ''lidos.''"

definition split_error :: string where
  "split_error = ''Erro: Falha ao processar os documentos. Verifique os arquivos PDF.''"

definition embeddings_error :: string where
  "embeddings_error =
     ''Erro: Falha ao conectar com o servi'' @ [CHR 0xE7]
       @ ''o de embeddings. Verifique sua chave de API ou modelo local.''"

definition store_error :: string where
  "store_error = ''Erro: Falha ao criar ou carregar o banco de dados vetorial.''"

definition llm_error :: string where
  "llm_error = ''Erro: Falha ao conectar com a API da OpenAI. Verifique sua chave.''"

definition banner :: "event list" where
  "banner =
     [Print ([CHR 0x0A] @ ''--- Assistente de Normas T'' @ [CHR 0xE9] @ ''cnicas ---''),
      Print (''Digite sua pergunta sobre as normas carregadas. Digite '' @ [CHR 0x27]
               @ ''sair'' @ [CHR 0x27] @ '' para terminar.'')]"

definition main_chain ::
  "ext \<Rightarrow> vectorstore \<Rightarrow> string list \<Rightarrow> event list \<times> outcome" where
  \<comment> \<open>steps 5 to 7 of \<^verbatim>\<open>main\<close>\<close>
  "main_chain x vs stdin =
     (case initialize_llm x MODEL_NAME of
        (ev6, Inl e) \<Rightarrow> (ev6 @ [Log ERROR (Llm_failed e), Print llm_error], Returned)
      | (ev6, Inr l) \<Rightarrow>
          (case setup_qa_chain x l vs of
             (ev7, qa_chain) \<Rightarrow>
               (case main_loop qa_chain stdin of
                  (evs, out) \<Rightarrow> (ev6 @ ev7 @ banner @ evs, out))))"

definition main_store ::
  "ext \<Rightarrow> fs \<Rightarrow> document list \<Rightarrow> string list \<Rightarrow> (event list \<times> fs) \<times> outcome" where
  \<comment> \<open>steps 3 to 7 of \<^verbatim>\<open>main\<close>\<close>
  "main_store x files split_docs stdin =
     (case initialize_embeddings x EMBEDDING_MODEL_NAME of
        (ev3, Inl e) \<Rightarrow>
          ((ev3 @ [Log ERROR (Embeddings_failed e), Print embeddings_error], files), Returned)
      | (ev3, Inr emb) \<Rightarrow>
          (case create_or_load_vectorstore x files
                  (if VECTORSTORE_PATH \<notin> files then split_docs else []) emb VECTORSTORE_PATH of
             ((ev4, files'), Inl (ValueError ve)) \<Rightarrow>
               ((ev3 @ ev4 @ [Log ERROR (Store_setup_failed (ValueError ve)),
                              Print (''Erro: '' @ ve)], files'), Returned)
           | ((ev4, files'), Inl e) \<Rightarrow>
               ((ev3 @ ev4 @ [Log ERROR (Store_setup_failed e), Print store_error], files'),
                Returned)
           | ((ev4, files'), Inr vs) \<Rightarrow>
               (case main_chain x vs stdin of
                  (evs, out) \<Rightarrow> ((ev3 @ ev4 @ evs, files'), out))))"

definition main :: "ext \<Rightarrow> fs \<Rightarrow> string list \<Rightarrow> (event list \<times> fs) \<times> outcome" where
  "main x files stdin =
     (case load_documents x DOCS_PATH of
        (ev1, Inl e) \<Rightarrow> ((Log INFO Starting # ev1, files), Uncaught e)
      | (ev1, Inr documents) \<Rightarrow>
          if documents = []
          then ((Log INFO Starting # ev1
                   @ [Log ERROR (No_documents DOCS_PATH), Print docs_error], files), Returned)
          else (case split_documents x documents CHUNK_SIZE CHUNK_OVERLAP of
                  (ev2, split_docs) \<Rightarrow>
                    if split_docs = [] \<and> VECTORSTORE_PATH \<notin> files
                    then ((Log INFO Starting # ev1 @ ev2
                             @ [Log ERROR Split_failed, Print split_error], files), Returned)
                    else (case main_store x files split_docs stdin of
                            ((evs, files'), out) \<Rightarrow>
                              ((Log INFO Starting # ev1 @ ev2
                                  @ (if split_docs = []
                                     then [Log WARNING Store_will_be_loaded] else [])
                                  @ evs, files'), out))))"

section \<open>Concrete inputs\<close>

definition sample_doc :: document where
  "sample_doc =
     \<lparr>page_content = ''A tolerancia maxima e de 5 mm.'',
      metadata = [''source'' \<mapsto> ''docs/norma-123.pdf'']\<rparr>"

definition fixed_chain :: "exn + chain_result \<Rightarrow> chain" where
  \<comment> \<open>a chain that gives the same outcome to every query\<close>
  "fixed_chain r = (\<lambda>query. r)"

definition answering :: "string \<Rightarrow> document list \<Rightarrow> chain" where
  \<comment> \<open>a chain whose LLM says \<open>a\<close> and whose retriever returns \<open>ds\<close>\<close>
  "answering a ds = fixed_chain (Inr \<lparr>result = Some a, source_documents = Some ds\<rparr>)"

definition echo_chain :: chain where
  \<comment> \<open>a chain whose LLM repeats the query it was given, between brackets, and whose
      retriever returns nothing\<close>
  "echo_chain = (\<lambda>query. Inr \<lparr>result = Some (''['' @ query @ '']''),
                                 source_documents = Some []\<rparr>)"

definition sample_ext :: ext where
  \<comment> \<open>a world where every call succeeds: one PDF, one page, one chunk\<close>
  "sample_ext =
     \<lparr>isdir = (\<lambda>p. True),
      listdir = (\<lambda>p. Inr [''norma-123.pdf'']),
      loader_load = (\<lambda>p. Inr [sample_doc]),
      split_text = (\<lambda>chunk_size chunk_overlap ds. ds),
      makedirs = (\<lambda>p. None),
      load_local = (\<lambda>p emb. Inr (FAISS [sample_doc])),
      rmtree = (\<lambda>p. None),
      from_documents = (\<lambda>ds emb. Inr (FAISS ds)),
      save_local = (\<lambda>vs p. None),
      new_embeddings = (\<lambda>name. None),
      new_llm = (\<lambda>name. None),
      retrieval_qa = (\<lambda>l vs. answering ''5 mm'' (case vs of FAISS ds \<Rightarrow> ds))\<rparr>"


definition corrupt_index_ext :: ext where
  \<comment> \<open>the same world, but the persisted index cannot be loaded\<close>
  "corrupt_index_ext =
     sample_ext\<lparr>load_local := (\<lambda>p emb. Inl (OtherException ''could not read index''))\<rparr>"

definition store_on_disk :: fs where
  \<comment> \<open>the files of a run that follows one that saved its index\<close>
  "store_on_disk = {''docs'', ''vectorstore'', ''vectorstore/faiss_index''}"


definition scanned_pdf_ext :: ext where
  \<comment> \<open>the persisted index cannot be loaded, and the splitter finds no text to split\<close>
  "scanned_pdf_ext = corrupt_index_ext\<lparr>split_text := (\<lambda>chunk_size chunk_overlap ds. [])\<rparr>"

definition copy_doc :: document where
  \<comment> \<open>a chunk of a second download of the same PDF\<close>
  "copy_doc =
     \<lparr>page_content = ''A tolerancia maxima e de 5 mm.'',
      metadata = [''source'' \<mapsto> ''docs/norma-123(1).pdf'']\<rparr>"


section \<open>Facts about the strings\<close>

lemma is_space_code:
  "is_space c \<longleftrightarrow> (of_char c :: nat) \<in> {9, 10, 11, 12, 13, 28, 29, 30, 31, 32, 133, 160}"
proof -
  have e: "c = d \<longleftrightarrow> (of_char c :: nat) = of_char d" for d by auto
  show ?thesis unfolding is_space_def
    by (simp only: e list.set insert_iff empty_iff) (simp del: of_char_eq_iff)
qed

lemma is_space_lower: "is_space (lower_char c) = is_space c"
proof (cases "(65 \<le> (of_char c :: nat) \<and> (of_char c :: nat) \<le> 90)
              \<or> (192 \<le> (of_char c :: nat) \<and> (of_char c :: nat) \<le> 222
                   \<and> (of_char c :: nat) \<noteq> 215)")
  case True
  then have "(of_char (lower_char c) :: nat) = of_char c + 32"
    by (auto simp: lower_char_def Let_def)
  with True show ?thesis unfolding is_space_code by auto
next
  case False
  then show ?thesis by (auto simp: lower_char_def Let_def)
qed

lemma dropWhile_space_lower:
  "dropWhile is_space (map lower_char s) = map lower_char (dropWhile is_space s)"
  by (induction s) (simp_all add: is_space_lower)

lemma strip_lower: "strip (lower s) = lower (strip s)"
  by (simp add: strip_def lower_def dropWhile_space_lower rev_map)

lemma strip_pad:
  assumes "list_all is_space l" "list_all is_space r" "w \<noteq> []"
    "\<not> is_space (hd w)" "\<not> is_space (last w)"
  shows "strip (l @ w @ r) = w"
proof -
  have a: "dropWhile is_space (l @ w @ r) = w @ r"
    using assms by (cases w) (auto simp: dropWhile_append list_all_iff)
  have "dropWhile is_space (rev r @ rev w) = rev w"
    using assms by (cases "rev w") (auto simp: dropWhile_append list_all_iff last_rev hd_rev)
  then show ?thesis by (simp add: strip_def a)
qed

lemma sair_not_space:
  assumes "lower w = ''sair''"
  shows "w \<noteq> [] \<and> \<not> is_space (hd w) \<and> \<not> is_space (last w)"
proof -
  obtain a1 a2 a3 a4 where w: "w = [a1, a2, a3, a4]"
    using assms by (auto simp: lower_def map_eq_Cons_conv)
  with assms have "lower_char a1 = CHR ''s''" "lower_char a4 = CHR ''r''"
    by (simp_all add: lower_def)
  then have "\<not> is_space (lower_char a1)" "\<not> is_space (lower_char a4)"
    by (simp_all add: is_space_def)
  then show ?thesis using w by (simp add: is_space_lower)
qed

lemma strip_not_found: "strip not_found_answer = not_found_answer"
  by (simp add: strip_def not_found_answer_def is_space_def)

section \<open>The answer of one query\<close>

text \<open>
  C5. When the chain returns and the text of its answer is the "not found" sentence,
  \<open>ask_question\<close> returns that sentence as it is, with no citation after it, whatever
  documents the retriever returned.
\<close>

theorem sentinel_returned_unchanged:
  assumes "chain query = Inr res" and "result res = Some not_found_answer"
  shows "ask_question chain query =
           ([Log INFO (Processing_query query), Log INFO Answer_not_found], not_found_answer)"
  using assms by (simp add: ask_question_def strip_not_found)

theorem sentinel_returned_unchanged_witness:
  "ask_question (answering not_found_answer [sample_doc]) ''Qual o prazo?'' =
     ([Log INFO (Processing_query ''Qual o prazo?''), Log INFO Answer_not_found],
      not_found_answer)"
  using sentinel_returned_unchanged
          [of "answering not_found_answer [sample_doc]" "''Qual o prazo?''"
              "\<lparr>result = Some not_found_answer, source_documents = Some [sample_doc]\<rparr>"]
  by (simp add: answering_def fixed_chain_def)

section \<open>The interactive loop\<close>

lemma main_loop_Cons:
  "main_loop c (query # rest) =
     (if strip (lower query) = ''sair''
      then ([Prompt question_prompt, Print farewell], Returned)
      else if strip query = []
      then (Prompt question_prompt # Print please_ask # fst (main_loop c rest),
            snd (main_loop c rest))
      else (Prompt question_prompt # fst (ask_question c query)
              @ Print (assistant_says (snd (ask_question c query))) # fst (main_loop c rest),
            snd (main_loop c rest)))"
  by (simp add: case_prod_unfold)

declare main_loop.simps(2) [simp del]





lemma sair_ends_loop:
  "main_loop c [''sair''] = ([Prompt question_prompt, Print farewell], Returned)"
proof -
  have "strip (lower ''sair'') = ''sair''" by code_simp
  then show ?thesis by (simp add: main_loop_Cons)
qed


lemma main_loop_cases:
  "(main_loop chain (line # rest) = ([Prompt question_prompt, Print farewell], Returned)
      \<longleftrightarrow> lower (strip line) = ''sair'')
   \<and> (\<forall>l w r. line = l @ w @ r \<and> list_all is_space l \<and> list_all is_space r
                 \<and> lower w = ''sair'' \<longrightarrow>
          main_loop chain (line # rest) = ([Prompt question_prompt, Print farewell], Returned))
   \<and> (strip line = [] \<longrightarrow>
          main_loop chain (line # rest) =
            (Prompt question_prompt # Print please_ask # fst (main_loop chain rest),
             snd (main_loop chain rest)))
   \<and> (strip line \<noteq> [] \<and> lower (strip line) \<noteq> ''sair'' \<longrightarrow>
          main_loop chain (line # rest) =
            (Prompt question_prompt # fst (ask_question chain line)
               @ Print (assistant_says (snd (ask_question chain line)))
               # fst (main_loop chain rest),
             snd (main_loop chain rest)))"
proof -
  have logs: "\<exists>m evs. fst (ask_question chain line) = Log INFO m # evs"
    by (simp add: ask_question_def Let_def split: sum.split)
  have neq: "please_ask \<noteq> farewell"
    by (simp add: please_ask_def farewell_def)
  have blank: "strip line = [] \<Longrightarrow> lower (strip line) \<noteq> ''sair''"
    by (simp add: lower_def)
  have a: "main_loop chain (line # rest) = ([Prompt question_prompt, Print farewell], Returned)
             \<longleftrightarrow> lower (strip line) = ''sair''"
    using logs neq blank by (auto simp: main_loop_Cons strip_lower)
  have b: "main_loop chain (line # rest) = ([Prompt question_prompt, Print farewell], Returned)"
    if "line = l @ w @ r" "list_all is_space l" "list_all is_space r" "lower w = ''sair''"
    for l w r
  proof -
    have "strip line = w" using that sair_not_space[of w] by (simp add: strip_pad)
    with that a show ?thesis by simp
  qed
  have c: "strip line = [] \<longrightarrow>
          main_loop chain (line # rest) =
            (Prompt question_prompt # Print please_ask # fst (main_loop chain rest),
             snd (main_loop chain rest))"
    using blank by (simp add: main_loop_Cons strip_lower)
  have d: "strip line \<noteq> [] \<and> lower (strip line) \<noteq> ''sair'' \<longrightarrow>
          main_loop chain (line # rest) =
            (Prompt question_prompt # fst (ask_question chain line)
               @ Print (assistant_says (snd (ask_question chain line)))
               # fst (main_loop chain rest),
             snd (main_loop chain rest))"
    by (simp add: main_loop_Cons strip_lower)
  from a b c d show ?thesis by blast
qed

text \<open>
  C8, as the claim states it, fails: the line is trimmed for the two tests only. What goes
  to \<open>ask_question\<close>, and from there to the chain and the log, is the line as it was
  typed, with its spaces.
\<close>

theorem untrimmed_line_forwarded:
  "strip ''  Qual?  '' = ''Qual?''
   \<and> main_loop echo_chain [''  Qual?  '', ''sair''] =
       ([Prompt ([CHR 0x0A] @ ''Sua pergunta: ''),
         Log INFO (Processing_query ''  Qual?  ''), Log WARNING No_source_documents,
         Print ([CHR 0x0A] @ ''Assistente: [  Qual?  ]''),
         Prompt ([CHR 0x0A] @ ''Sua pergunta: ''),
         Print (''Encerrando o assistente. At'' @ [CHR 0xE9] @ '' logo!'')], Returned)
   \<and> ask_question echo_chain ''  Qual?  '' \<noteq> ask_question echo_chain (strip ''  Qual?  '')"
proof -
  have a: "strip ''  Qual?  '' = ''Qual?''" by code_simp
  have b: "strip (lower ''  Qual?  '') \<noteq> ''sair''" by code_simp
  have c: "ask_question echo_chain ''  Qual?  '' =
             ([Log INFO (Processing_query ''  Qual?  ''), Log WARNING No_source_documents],
              ''[  Qual?  ]'')"
    by code_simp
  have d: "ask_question echo_chain ''Qual?'' =
             ([Log INFO (Processing_query ''Qual?''), Log WARNING No_source_documents],
              ''[Qual?]'')"
    by code_simp
  have e: "main_loop echo_chain [''sair''] =
             ([Prompt ([CHR 0x0A] @ ''Sua pergunta: ''),
               Print (''Encerrando o assistente. At'' @ [CHR 0xE9] @ '' logo!'')], Returned)"
    using sair_ends_loop [of echo_chain] by (simp add: question_prompt_def farewell_def)
  have "main_loop echo_chain [''  Qual?  '', ''sair''] =
       ([Prompt ([CHR 0x0A] @ ''Sua pergunta: ''),
         Log INFO (Processing_query ''  Qual?  ''), Log WARNING No_source_documents,
         Print ([CHR 0x0A] @ ''Assistente: [  Qual?  ]''),
         Prompt ([CHR 0x0A] @ ''Sua pergunta: ''),
         Print (''Encerrando o assistente. At'' @ [CHR 0xE9] @ '' logo!'')], Returned)"
    using a b c e by (simp add: main_loop_Cons question_prompt_def assistant_says_def)
  with a c d show ?thesis by simp
qed

text \<open>
  C8, amended. For every line read: the loop stops, printing "Encerrando o assistente.
  Ate logo!", exactly when the line, trimmed and lowered, is \<^verbatim>\<open>sair\<close>, so also when
  spaces surround any spelling of it in capitals or small letters; a line that is empty
  once trimmed gets "Por favor, digite uma pergunta." and the next prompt, with no call of
  \<open>ask_question\<close> (nothing is logged); any other line goes to \<open>ask_question\<close> as it was
  typed, not trimmed, and what is printed is a line feed, "Assistente: " and the text
  that \<open>ask_question\<close> returned; then the loop goes on with the next line.
\<close>

theorem loop_handles_each_line:
  "(main_loop chain (line # rest) =
      ([Prompt ([CHR 0x0A] @ ''Sua pergunta: ''),
        Print (''Encerrando o assistente. At'' @ [CHR 0xE9] @ '' logo!'')], Returned)
      \<longleftrightarrow> lower (strip line) = ''sair'')
   \<and> (\<forall>l w r. line = l @ w @ r \<and> list_all is_space l \<and> list_all is_space r
                 \<and> lower w = ''sair'' \<longrightarrow>
          main_loop chain (line # rest) =
            ([Prompt ([CHR 0x0A] @ ''Sua pergunta: ''),
              Print (''Encerrando o assistente. At'' @ [CHR 0xE9] @ '' logo!'')], Returned))
   \<and> (strip line = [] \<longrightarrow>
          main_loop chain (line # rest) =
            (Prompt ([CHR 0x0A] @ ''Sua pergunta: '')
               # Print ''Por favor, digite uma pergunta.'' # fst (main_loop chain rest),
             snd (main_loop chain rest)))
   \<and> (strip line \<noteq> [] \<and> lower (strip line) \<noteq> ''sair'' \<longrightarrow>
          main_loop chain (line # rest) =
            (Prompt ([CHR 0x0A] @ ''Sua pergunta: '') # fst (ask_question chain line)
               @ Print ([CHR 0x0A] @ ''Assistente: '' @ snd (ask_question chain line))
               # fst (main_loop chain rest),
             snd (main_loop chain rest)))"
  by (rule main_loop_cases
             [of chain line rest,
              unfolded farewell_def please_ask_def question_prompt_def assistant_says_def])

lemma shouted_exit: "lower (strip ''  SAIR '') = ''sair''"
  by code_simp

lemma blank_line: "strip [CHR 0x20, CHR 0x09] = []"
  by code_simp

lemma padded_question_is_no_exit:
  "strip ''  Qual a tolerancia? '' \<noteq> []
   \<and> lower (strip ''  Qual a tolerancia? '') \<noteq> ''sair''"
  by code_simp

lemma padded_question_answer:
  "ask_question (answering ''5 mm'' [sample_doc]) ''  Qual a tolerancia? '' =
     ([Log INFO (Processing_query ''  Qual a tolerancia? ''),
       Log INFO (Answer_generated (''5 mm'' @ [CHR 0x0A] @ ''(Fonte: norma-123.pdf)''))],
      ''5 mm'' @ [CHR 0x0A] @ ''(Fonte: norma-123.pdf)'')"
  by code_simp

lemma sair_ends_loop_printed:
  "main_loop c [''sair''] =
     ([Prompt ([CHR 0x0A] @ ''Sua pergunta: ''),
       Print (''Encerrando o assistente. At'' @ [CHR 0xE9] @ '' logo!'')], Returned)"
  using sair_ends_loop [of c] by (simp add: question_prompt_def farewell_def)

theorem loop_handles_each_line_witness:
  "main_loop (answering ''5 mm'' [sample_doc]) [''  SAIR '', ''Qual a tolerancia?''] =
     ([Prompt ([CHR 0x0A] @ ''Sua pergunta: ''),
       Print (''Encerrando o assistente. At'' @ [CHR 0xE9] @ '' logo!'')], Returned)
   \<and> main_loop (answering ''5 mm'' [sample_doc]) [[CHR 0x20, CHR 0x09], ''sair''] =
       ([Prompt ([CHR 0x0A] @ ''Sua pergunta: ''), Print ''Por favor, digite uma pergunta.'',
         Prompt ([CHR 0x0A] @ ''Sua pergunta: ''),
         Print (''Encerrando o assistente. At'' @ [CHR 0xE9] @ '' logo!'')], Returned)
   \<and> main_loop (answering ''5 mm'' [sample_doc]) [''  Qual a tolerancia? '', ''sair''] =
       ([Prompt ([CHR 0x0A] @ ''Sua pergunta: ''),
         Log INFO (Processing_query ''  Qual a tolerancia? ''),
         Log INFO (Answer_generated (''5 mm'' @ [CHR 0x0A] @ ''(Fonte: norma-123.pdf)'')),
         Print ([CHR 0x0A] @ ''Assistente: 5 mm'' @ [CHR 0x0A] @ ''(Fonte: norma-123.pdf)''),
         Prompt ([CHR 0x0A] @ ''Sua pergunta: ''),
         Print (''Encerrando o assistente. At'' @ [CHR 0xE9] @ '' logo!'')], Returned)"
  using loop_handles_each_line
          [of "answering ''5 mm'' [sample_doc]" "''  SAIR ''" "[''Qual a tolerancia?'']"]
        loop_handles_each_line
          [of "answering ''5 mm'' [sample_doc]" "[CHR 0x20, CHR 0x09]" "[''sair'']"]
        loop_handles_each_line
          [of "answering ''5 mm'' [sample_doc]" "''  Qual a tolerancia? ''" "[''sair'']"]
        shouted_exit blank_line padded_question_is_no_exit padded_question_answer
        sair_ends_loop_printed [of "answering ''5 mm'' [sample_doc]"]
  by simp

lemma collect_sources_image:
  "collect_sources ds =
     (\<lambda>d. basename (case metadata d ''source'' of None \<Rightarrow> unknown_source | Some s \<Rightarrow> s))
       ` set ds"
proof -
  have "fold (\<lambda>doc sources.
             let source_name = (case metadata doc ''source'' of
                                  None \<Rightarrow> unknown_source | Some s \<Rightarrow> s)
             in insert (basename source_name) sources) ds S
        = (\<lambda>d. basename (case metadata d ''source'' of
                            None \<Rightarrow> unknown_source | Some s \<Rightarrow> s)) ` set ds \<union> S" for S
    by (induction ds arbitrary: S) (auto simp: Let_def)
  then show ?thesis by (simp add: collect_sources_def)
qed

text \<open>
  C10. When the list of source documents is not empty, neither is the set of source
  names: every document puts in the base name of its \<^verbatim>\<open>source\<close>, or of the default
  \<^verbatim>\<open>desconhecida\<close> when it has none. So the branch that warns that no source was found in
  the metadata, and answers with the "origin not identified" citation, is never taken.
\<close>

theorem sources_never_empty:
  assumes "source_docs \<noteq> []"
  shows "collect_sources source_docs \<noteq> {}
         \<and> (\<forall>d \<in> set source_docs.
               basename (case metadata d ''source'' of
                           None \<Rightarrow> unknown_source | Some s \<Rightarrow> s)
                 \<in> collect_sources source_docs)
         \<and> (\<forall>chain query res.
               chain query = Inr res \<and> source_documents res = Some source_docs \<longrightarrow>
               Log WARNING Sources_not_in_metadata \<notin> set (fst (ask_question chain query)))"
proof -
  have ne: "collect_sources source_docs \<noteq> {}"
    using assms by (simp add: collect_sources_image)
  have "Log WARNING Sources_not_in_metadata \<notin> set (fst (ask_question chain query))"
    if "chain query = Inr res" "source_documents res = Some source_docs" for chain query res
    using that ne assms by (simp add: ask_question_def Let_def)
  with ne show ?thesis by (auto simp: collect_sources_image)
qed

theorem sources_never_empty_witness:
  "collect_sources [sample_doc] \<noteq> {}
   \<and> ''norma-123.pdf'' \<in> collect_sources [sample_doc]
   \<and> Log WARNING Sources_not_in_metadata
        \<notin> set (fst (ask_question (answering ''5 mm'' [sample_doc]) ''Qual a tolerancia?''))"
proof -
  have a: "basename (case metadata sample_doc ''source'' of
                       None \<Rightarrow> unknown_source | Some s \<Rightarrow> s) = ''norma-123.pdf''"
    by (simp add: sample_doc_def basename_def)
  have b: "answering ''5 mm'' [sample_doc] ''Qual a tolerancia?''
             = Inr \<lparr>result = Some ''5 mm'', source_documents = Some [sample_doc]\<rparr>"
    by (simp add: answering_def fixed_chain_def)
  show ?thesis
    using sources_never_empty [of "[sample_doc]"] a b by auto
qed





section \<open>Startup\<close>




lemma new_vectorstore_empty:
  "new_vectorstore x files [] emb store_path =
     (([Log ERROR No_split_docs], files), Inl (ValueError value_error_text))"
  by (simp add: new_vectorstore_def)

lemma load_or_new_empty:
  assumes "store_path \<in> files \<longrightarrow>
             load_local x store_path emb = Inl e \<and> rmtree x store_path = None"
  shows "load_or_new_vectorstore x files [] emb store_path =
           ((if store_path \<in> files
             then [Log INFO (Loading_store store_path), Log ERROR (Store_load_failed e),
                   Log ERROR No_split_docs]
             else [Log ERROR No_split_docs], files - {store_path}),
            Inl (ValueError value_error_text))"
  using assms by (simp add: load_or_new_vectorstore_def new_vectorstore_empty)

lemma create_or_load_empty:
  assumes "dirname store_path \<in> files \<or> makedirs x (dirname store_path) = None"
    and "dirname store_path \<noteq> store_path"
    and "store_path \<in> files \<longrightarrow>
           load_local x store_path emb = Inl e \<and> rmtree x store_path = None"
  shows "snd (create_or_load_vectorstore x files [] emb store_path)
           = Inl (ValueError value_error_text)
         \<and> store_path \<notin> snd (fst (create_or_load_vectorstore x files [] emb store_path))"
proof (cases "dirname store_path \<in> files")
  case True
  then show ?thesis
    using load_or_new_empty[of store_path files x emb e] assms(3)
    by (simp add: create_or_load_vectorstore_def Let_def)
next
  case False
  have "store_path \<in> insert (dirname store_path) files \<longrightarrow>
           load_local x store_path emb = Inl e \<and> rmtree x store_path = None"
    using assms(2,3) by auto
  from load_or_new_empty[of store_path "insert (dirname store_path) files" x emb e, OF this]
  show ?thesis
    using False assms(1) by (simp add: create_or_load_vectorstore_def Let_def)
qed

lemma dirname_store: "dirname VECTORSTORE_PATH = ''vectorstore''"
  by code_simp

lemma dirname_store_neq: "dirname VECTORSTORE_PATH \<noteq> VECTORSTORE_PATH"
  by code_simp

lemma main_store_value_error:
  assumes "new_embeddings x EMBEDDING_MODEL_NAME = None"
    and "create_or_load_vectorstore x files
           (if VECTORSTORE_PATH \<notin> files then split_docs else [])
           (OpenAIEmbeddings EMBEDDING_MODEL_NAME) VECTORSTORE_PATH
         = ((ev, files'), Inl (ValueError ve))"
  shows "main_store x files split_docs stdin =
           ((Log INFO (Initializing_embeddings EMBEDDING_MODEL_NAME) # ev
               @ [Log ERROR (Store_setup_failed (ValueError ve)), Print (''Erro: '' @ ve)],
             files'), Returned)"
  using assms by (simp add: main_store_def initialize_embeddings_def)

text \<open>
  C9. With an empty list of chunks and no index that can be used (none on disk, or one
  that fails to load and is removed), \<open>create_or_load_vectorstore\<close> raises the
  \<^verbatim>\<open>ValueError\<close> that says a vector store cannot be created without documents, and no
  index is on disk afterwards. In \<open>main\<close>, when the splitter gives no chunk and no index
  can be used, the run ends with a printed error and without an index: the error of the
  failed split when no index exists, the text of the \<^verbatim>\<open>ValueError\<close> when the index exists
  and fails to load.
\<close>

theorem empty_chunks_cannot_build:
  "((dirname store_path \<in> files \<or> makedirs x (dirname store_path) = None)
      \<and> dirname store_path \<noteq> store_path
      \<and> (store_path \<in> files \<longrightarrow>
            load_local x store_path emb = Inl e \<and> rmtree x store_path = None)
    \<longrightarrow> snd (create_or_load_vectorstore x files [] emb store_path)
            = Inl (ValueError value_error_text)
        \<and> store_path \<notin> snd (fst (create_or_load_vectorstore x files [] emb store_path)))
   \<and> (load_documents x DOCS_PATH = (evs, Inr documents) \<and> documents \<noteq> []
        \<and> split_text x CHUNK_SIZE CHUNK_OVERLAP documents = []
        \<and> (VECTORSTORE_PATH \<in> files \<longrightarrow>
              new_embeddings x EMBEDDING_MODEL_NAME = None
              \<and> (dirname VECTORSTORE_PATH \<in> files
                   \<or> makedirs x (dirname VECTORSTORE_PATH) = None)
              \<and> load_local x VECTORSTORE_PATH (OpenAIEmbeddings EMBEDDING_MODEL_NAME) = Inl e'
              \<and> rmtree x VECTORSTORE_PATH = None)
    \<longrightarrow> snd (main x files stdin) = Returned
        \<and> VECTORSTORE_PATH \<notin> snd (fst (main x files stdin))
        \<and> last (fst (fst (main x files stdin))) =
            Print (if VECTORSTORE_PATH \<in> files
                   then ''Erro: '' @ value_error_text else split_error))"
proof (intro conjI impI)
  assume a: "(dirname store_path \<in> files \<or> makedirs x (dirname store_path) = None)
      \<and> dirname store_path \<noteq> store_path
      \<and> (store_path \<in> files \<longrightarrow>
            load_local x store_path emb = Inl e \<and> rmtree x store_path = None)"
  with create_or_load_empty[of store_path files x emb e]
  show "snd (create_or_load_vectorstore x files [] emb store_path)
            = Inl (ValueError value_error_text)"
    and "store_path \<notin> snd (fst (create_or_load_vectorstore x files [] emb store_path))"
    by simp_all
next
  assume b: "load_documents x DOCS_PATH = (evs, Inr documents) \<and> documents \<noteq> []
        \<and> split_text x CHUNK_SIZE CHUNK_OVERLAP documents = []
        \<and> (VECTORSTORE_PATH \<in> files \<longrightarrow>
              new_embeddings x EMBEDDING_MODEL_NAME = None
              \<and> (dirname VECTORSTORE_PATH \<in> files
                   \<or> makedirs x (dirname VECTORSTORE_PATH) = None)
              \<and> load_local x VECTORSTORE_PATH (OpenAIEmbeddings EMBEDDING_MODEL_NAME) = Inl e'
              \<and> rmtree x VECTORSTORE_PATH = None)"
  have sp: "split_documents x documents CHUNK_SIZE CHUNK_OVERLAP =
              ([Log INFO (Splitting CHUNK_SIZE CHUNK_OVERLAP), Log INFO (Documents_split 0)], [])"
    using b by (simp add: split_documents_def)
  have r: "snd (main x files stdin) = Returned
        \<and> VECTORSTORE_PATH \<notin> snd (fst (main x files stdin))
        \<and> last (fst (fst (main x files stdin))) =
            Print (if VECTORSTORE_PATH \<in> files
                   then ''Erro: '' @ value_error_text else split_error)"
  proof (cases "VECTORSTORE_PATH \<in> files")
    case False
    then show ?thesis using b sp by (simp add: main_def)
  next
    case True
    let ?c = "create_or_load_vectorstore x files []
                (OpenAIEmbeddings EMBEDDING_MODEL_NAME) VECTORSTORE_PATH"
    have c: "snd ?c = Inl (ValueError value_error_text) \<and> VECTORSTORE_PATH \<notin> snd (fst ?c)"
      using create_or_load_empty
              [of VECTORSTORE_PATH files x "OpenAIEmbeddings EMBEDDING_MODEL_NAME" e']
            b True dirname_store_neq by simp
    obtain ev files' where d: "?c = ((ev, files'), Inl (ValueError value_error_text))"
      and f: "VECTORSTORE_PATH \<notin> files'"
      using c by (cases ?c) auto
    have "main_store x files [] stdin =
           ((Log INFO (Initializing_embeddings EMBEDDING_MODEL_NAME) # ev
               @ [Log ERROR (Store_setup_failed (ValueError value_error_text)),
                  Print (''Erro: '' @ value_error_text)],
             files'), Returned)"
      using main_store_value_error[of x files "[]" ev files' value_error_text stdin] b True d
      by simp
    then show ?thesis using b sp True f by (simp add: main_def)
  qed
  from r show "snd (main x files stdin) = Returned"
    and "VECTORSTORE_PATH \<notin> snd (fst (main x files stdin))"
    and "last (fst (fst (main x files stdin))) =
            Print (if VECTORSTORE_PATH \<in> files
                   then ''Erro: '' @ value_error_text else split_error)"
    by simp_all
qed

lemma store_path_on_disk:
  "VECTORSTORE_PATH \<in> store_on_disk \<and> dirname VECTORSTORE_PATH \<in> store_on_disk"
  by (simp add: dirname_store) (simp add: store_on_disk_def VECTORSTORE_PATH_def)

lemma scanned_pdf_loads:
  "load_documents scanned_pdf_ext DOCS_PATH =
     ([Log INFO (Loading_documents DOCS_PATH), Log INFO (Documents_loaded 1)],
      Inr [sample_doc])"
  by (simp add: load_documents_def scanned_pdf_ext_def corrupt_index_ext_def sample_ext_def)

theorem empty_chunks_cannot_build_witness:
  "snd (create_or_load_vectorstore scanned_pdf_ext store_on_disk []
          (OpenAIEmbeddings EMBEDDING_MODEL_NAME) VECTORSTORE_PATH)
     = Inl (ValueError value_error_text)
   \<and> VECTORSTORE_PATH
       \<notin> snd (fst (create_or_load_vectorstore scanned_pdf_ext store_on_disk []
                      (OpenAIEmbeddings EMBEDDING_MODEL_NAME) VECTORSTORE_PATH))
   \<and> snd (main scanned_pdf_ext store_on_disk [''Qual a tolerancia?'', ''sair'']) = Returned
   \<and> VECTORSTORE_PATH
       \<notin> snd (fst (main scanned_pdf_ext store_on_disk [''Qual a tolerancia?'', ''sair'']))
   \<and> last (fst (fst (main scanned_pdf_ext store_on_disk [''Qual a tolerancia?'', ''sair''])))
       = Print (''Erro: '' @ value_error_text)"
  using empty_chunks_cannot_build
          [where store_path = VECTORSTORE_PATH and files = store_on_disk
             and x = scanned_pdf_ext and emb = "OpenAIEmbeddings EMBEDDING_MODEL_NAME"
             and e = "OtherException ''could not read index''"
             and e' = "OtherException ''could not read index''"
             and evs = "[Log INFO (Loading_documents DOCS_PATH), Log INFO (Documents_loaded 1)]"
             and documents = "[sample_doc]"
             and stdin = "[''Qual a tolerancia?'', ''sair'']"]
        store_path_on_disk dirname_store_neq scanned_pdf_loads
  by (simp add: scanned_pdf_ext_def corrupt_index_ext_def sample_ext_def)

text \<open>
  C1. A start with one chunk produced, where the persisted index exists and cannot be
  loaded. Given the chunk, \<open>create_or_load_vectorstore\<close> removes the index and builds a
  new one. But \<open>main\<close> hands it the empty list whenever the path of the index exists, so
  after removing the index it raises the \<^verbatim>\<open>ValueError\<close> of the empty list, and \<open>main\<close>
  prints that error and returns: nothing is rebuilt and no question is read.
\<close>

theorem corrupt_index_aborts_startup:
  "snd (create_or_load_vectorstore corrupt_index_ext store_on_disk [sample_doc]
          (OpenAIEmbeddings EMBEDDING_MODEL_NAME) VECTORSTORE_PATH)
     = Inr (FAISS [sample_doc])
   \<and> main corrupt_index_ext store_on_disk [''Qual a tolerancia?'', ''sair''] =
       (([Log INFO Starting, Log INFO (Loading_documents DOCS_PATH),
          Log INFO (Documents_loaded 1), Log INFO (Splitting CHUNK_SIZE CHUNK_OVERLAP),
          Log INFO (Documents_split 1),
          Log INFO (Initializing_embeddings EMBEDDING_MODEL_NAME),
          Log INFO (Loading_store VECTORSTORE_PATH),
          Log ERROR (Store_load_failed (OtherException ''could not read index'')),
          Log ERROR No_split_docs,
          Log ERROR (Store_setup_failed (ValueError value_error_text)),
          Print (''Erro: '' @ value_error_text)],
         store_on_disk - {VECTORSTORE_PATH}), Returned)"
proof -
  have ld: "load_documents corrupt_index_ext DOCS_PATH =
     ([Log INFO (Loading_documents DOCS_PATH), Log INFO (Documents_loaded 1)],
      Inr [sample_doc])"
    by (simp add: load_documents_def corrupt_index_ext_def sample_ext_def)
  have sp: "split_documents corrupt_index_ext [sample_doc] CHUNK_SIZE CHUNK_OVERLAP =
     ([Log INFO (Splitting CHUNK_SIZE CHUNK_OVERLAP), Log INFO (Documents_split 1)],
      [sample_doc])"
    by (simp add: split_documents_def corrupt_index_ext_def sample_ext_def)
  have a: "create_or_load_vectorstore corrupt_index_ext store_on_disk [sample_doc]
          (OpenAIEmbeddings EMBEDDING_MODEL_NAME) VECTORSTORE_PATH
        = (([Log INFO (Loading_store VECTORSTORE_PATH),
             Log ERROR (Store_load_failed (OtherException ''could not read index'')),
             Log INFO Creating_store, Log INFO Store_created,
             Log INFO (Store_saved VECTORSTORE_PATH)],
            insert VECTORSTORE_PATH (store_on_disk - {VECTORSTORE_PATH})),
           Inr (FAISS [sample_doc]))"
    using store_path_on_disk
    by (simp add: create_or_load_vectorstore_def load_or_new_vectorstore_def
          new_vectorstore_def corrupt_index_ext_def sample_ext_def Let_def)
  have b: "create_or_load_vectorstore corrupt_index_ext store_on_disk []
          (OpenAIEmbeddings EMBEDDING_MODEL_NAME) VECTORSTORE_PATH
        = (([Log INFO (Loading_store VECTORSTORE_PATH),
             Log ERROR (Store_load_failed (OtherException ''could not read index'')),
             Log ERROR No_split_docs], store_on_disk - {VECTORSTORE_PATH}),
           Inl (ValueError value_error_text))"
    using store_path_on_disk
    by (simp add: create_or_load_vectorstore_def load_or_new_vectorstore_def
          new_vectorstore_def corrupt_index_ext_def sample_ext_def Let_def)
  have c: "main_store corrupt_index_ext store_on_disk [sample_doc]
             [''Qual a tolerancia?'', ''sair''] =
           (([Log INFO (Initializing_embeddings EMBEDDING_MODEL_NAME),
              Log INFO (Loading_store VECTORSTORE_PATH),
              Log ERROR (Store_load_failed (OtherException ''could not read index'')),
              Log ERROR No_split_docs,
              Log ERROR (Store_setup_failed (ValueError value_error_text)),
              Print (''Erro: '' @ value_error_text)],
             store_on_disk - {VECTORSTORE_PATH}), Returned)"
    using store_path_on_disk b
    by (simp add: main_store_def initialize_embeddings_def corrupt_index_ext_def
          sample_ext_def)
  show ?thesis using a ld sp c store_path_on_disk by (simp add: main_def)
qed

section \<open>Citations\<close>

lemma paren_no_space: "\<not> is_space (CHR ''('')"
  by (simp add: is_space_def)

lemma match_if_trailing:
  assumes "trailing_citation t"
  shows "match_citation_here t"
proof -
  from assms obtain l b r where t: "t = l @ ''(Fonte: '' @ b @ '')'' @ r"
    and l: "list_all is_space l" and r: "list_all is_space r"
    and b: "b \<noteq> []" "CHR '')'' \<notin> set b"
    by (auto simp: trailing_citation_def)
  have d: "dropWhile is_space t = ''(Fonte: '' @ b @ '')'' @ r"
    using l paren_no_space by (simp add: t dropWhile_append list_all_iff)
  have tw: "takeWhile (\<lambda>c. c \<noteq> CHR '')'') (b @ CHR '')'' # r) = b"
    using b(2) by (subst takeWhile_append2) auto
  have dw: "dropWhile (\<lambda>c. c \<noteq> CHR '')'') (b @ CHR '')'' # r) = CHR '')'' # r"
    using b(2) by (subst dropWhile_append2) auto
  show ?thesis
    using b(1) r by (simp add: match_citation_here_def d tw dw)
qed




lemma strip_trimmed: "trimmed s \<Longrightarrow> strip s = s"
proof (cases s)
  case Nil
  then show ?thesis by (simp add: strip_def)
next
  case (Cons a as)
  assume "trimmed s"
  with Cons have h: "\<not> is_space a" and l: "\<not> is_space (last s)" by (auto simp: trimmed_def)
  obtain x xs where r: "rev s = x # xs" using Cons by (cases "rev s") auto
  then have "x = last s" by (metis hd_rev list.sel(1))
  with l have "dropWhile is_space (rev s) = rev s" unfolding r by simp
  moreover have "dropWhile is_space s = s" using h Cons by simp
  ultimately show ?thesis by (simp add: strip_def)
qed

lemma trimmed_strip: "trimmed (strip s)"
proof -
  let ?u = "dropWhile is_space s"
  let ?v = "rev (dropWhile is_space (rev ?u))"
  have v: "strip s = ?v" by (simp add: strip_def)
  have u: "?u = ?v @ rev (takeWhile is_space (rev ?u))"
    by (metis rev_append rev_rev_ident takeWhile_dropWhile_id)
  show ?thesis
  proof (cases "?v = []")
    case True
    then show ?thesis by (simp add: trimmed_def v)
  next
    case False
    then have "hd ?v = hd ?u" using u by (metis hd_append2)
    moreover have "?u \<noteq> []"
    proof
      assume a: "?u = []"
      have "?v = []" unfolding a by simp
      with False show False by blast
    qed
    then have "\<not> is_space (hd ?u)" by (rule hd_dropWhile)
    moreover have w: "dropWhile is_space (rev ?u) \<noteq> []"
      using False by blast
    then have "\<not> is_space (hd (dropWhile is_space (rev ?u)))"
      by (rule hd_dropWhile)
    then have "\<not> is_space (last ?v)" using w by (metis last_rev)
    ultimately show ?thesis by (simp add: trimmed_def v)
  qed
qed

lemma match_after_space:
  "is_space c \<Longrightarrow> match_citation_here cs \<Longrightarrow> match_citation_here (c # cs)"
  by (simp add: match_citation_here_def)

lemma re_sub_Nil_iff: "re_sub_citation s = [] \<longleftrightarrow> s = [] \<or> match_citation_here s"
  by (cases s) auto

lemma re_sub_last:
  "s \<noteq> [] \<Longrightarrow> \<not> is_space (last s) \<Longrightarrow> re_sub_citation s \<noteq> []
     \<Longrightarrow> \<not> is_space (last (re_sub_citation s))"
proof (induction s)
  case Nil
  then show ?case by simp
next
  case (Cons c cs)
  from Cons.prems(3) have nm: "\<not> match_citation_here (c # cs)"
    by (auto split: if_splits)
  show ?case
  proof (cases "re_sub_citation cs = []")
    case True
    then have "cs = [] \<or> match_citation_here cs" by (simp add: re_sub_Nil_iff)
    then have "\<not> is_space c"
      using Cons.prems(2) nm match_after_space[of c cs] by auto
    with nm True show ?thesis by simp
  next
    case False
    then have "cs \<noteq> []" by auto
    with Cons False nm show ?thesis by simp
  qed
qed

lemma re_sub_hd: "re_sub_citation s \<noteq> [] \<Longrightarrow> hd (re_sub_citation s) = hd s"
  by (cases s) (auto split: if_splits)

lemma trimmed_re_sub:
  assumes "trimmed s"
  shows "trimmed (re_sub_citation s)"
proof (cases "re_sub_citation s = []")
  case True
  then show ?thesis by (simp add: trimmed_def)
next
  case False
  then have ne: "s \<noteq> []" by auto
  with assms have "\<not> is_space (hd s)" "\<not> is_space (last s)" by (simp_all add: trimmed_def)
  with ne False show ?thesis
    using re_sub_last[of s] re_sub_hd[of s] by (simp add: trimmed_def)
qed

lemma strip_re_sub: "strip (re_sub_citation (strip s)) = re_sub_citation (strip s)"
  by (simp add: strip_trimmed trimmed_re_sub trimmed_strip)

lemma collect_sources_nonempty: "ds \<noteq> [] \<Longrightarrow> collect_sources ds \<noteq> {}"
  by (simp add: collect_sources_image)


lemma ask_question_cited:
  assumes "chain query = Inr res"
    and "answer = strip (case result res of None \<Rightarrow> [] | Some a \<Rightarrow> a)"
    and "answer \<noteq> not_found_answer"
    and "source_documents res = Some ds" and "ds \<noteq> []"
    and "citation = fonte (join '', '' (sorted_list_of_set (collect_sources ds)))"
  shows "snd (ask_question chain query) =
           (if \<not> sublist citation answer then answer else re_sub_citation answer)
             @ [CHR 0x0A] @ citation"
proof -
  have "strip (re_sub_citation answer) = re_sub_citation answer"
    unfolding assms(2) by (rule strip_re_sub)
  then show ?thesis
    using assms collect_sources_nonempty[of ds] by (simp add: ask_question_def Let_def)
qed








text \<open>
  C4. A source file whose name has a closing parenthesis. The first answer gets its
  citation; when that cited answer is the text of the LLM, the pattern does not match the
  citation it ends with (the body of a match has no closing parenthesis), nothing is
  removed, and the citation is there twice.
\<close>

theorem citation_repeated_for_parenthesis_in_name:
  "snd (ask_question (answering ''5 mm'' [copy_doc]) ''Qual a tolerancia?'')
     = ''5 mm'' @ [CHR 0x0A] @ ''(Fonte: norma-123(1).pdf)''
   \<and> snd (ask_question
            (answering (''5 mm'' @ [CHR 0x0A] @ ''(Fonte: norma-123(1).pdf)'') [copy_doc])
            ''Qual a tolerancia?'')
       = ''5 mm'' @ [CHR 0x0A] @ ''(Fonte: norma-123(1).pdf)''
           @ [CHR 0x0A] @ ''(Fonte: norma-123(1).pdf)''"
  by code_simp

lemma match_starts_with_paren:
  assumes "match_citation_here u"
  shows "hd (dropWhile is_space u) = CHR ''(''"
proof -
  from assms have "prefix ''(Fonte: '' (dropWhile is_space u)"
    by (simp add: match_citation_here_def Let_def)
  then obtain zs where "dropWhile is_space u = ''(Fonte: '' @ zs" by (rule prefixE)
  then show ?thesis by simp
qed

lemma no_match_inside:
  assumes "CHR ''('' \<notin> set b" and "b \<noteq> []" and "\<not> is_space (last b)"
  shows "\<not> match_citation_here (b @ t)"
proof
  assume m: "match_citation_here (b @ t)"
  have l: "last b \<in> set b" using assms(2) by simp
  have d: "dropWhile is_space (b @ t) = dropWhile is_space b @ t"
    using l assms(3) by (rule dropWhile_append1)
  have ne: "dropWhile is_space b \<noteq> []"
    using l assms(3) by (auto simp: dropWhile_eq_Nil_conv)
  then have "hd (dropWhile is_space (b @ t)) \<in> set b"
    unfolding d by (metis hd_append2 hd_in_set set_dropWhileD)
  with match_starts_with_paren[OF m] assms(1) show False by simp
qed

lemma re_sub_removes_last_citation:
  assumes "CHR ''('' \<notin> set b" and "b = [] \<or> \<not> is_space (last b)"
    and "match_citation_here t"
  shows "re_sub_citation (b @ t) = b"
  using assms
proof (induction b)
  case Nil
  then show ?case by (simp add: re_sub_Nil_iff)
next
  case (Cons c cs)
  have "\<not> match_citation_here ((c # cs) @ t)"
    using Cons.prems by (intro no_match_inside) auto
  moreover have "re_sub_citation (cs @ t) = cs"
    using Cons by (cases "cs = []") auto
  ultimately show ?case by simp
qed

text \<open>
  Where the second pass does give back the cited answer: the names have no closing
  parenthesis, and the text before the citation has no space at its ends and no opening
  parenthesis.
\<close>

lemma citation_kept_once:
  assumes "chain query = Inr res"
    and "result res = Some (body @ [CHR 0x0A] @ fonte cite)"
    and "source_documents res = Some ds" and "ds \<noteq> []"
    and "cite = join '', '' (sorted_list_of_set (collect_sources ds))"
    and "cite \<noteq> []" and "CHR '')'' \<notin> set cite"
    and "body \<noteq> []" and "trimmed body" and "CHR ''('' \<notin> set body"
  shows "snd (ask_question chain query) = body @ [CHR 0x0A] @ fonte cite"
proof -
  let ?a = "body @ [CHR 0x0A] @ fonte cite"
  have "hd ?a = hd body" using assms(8) by simp
  moreover have "last ?a = CHR '')''" by (simp add: fonte_def)
  ultimately have "trimmed ?a"
    using assms(8,9) by (simp add: trimmed_def is_space_def)
  then have st: "strip ?a = ?a" by (rule strip_trimmed)
  have nf: "?a \<noteq> not_found_answer"
  proof
    assume "?a = not_found_answer"
    then have "last ?a = last not_found_answer" by simp
    then show False by (simp add: fonte_def not_found_answer_def)
  qed
  have "trailing_citation ([CHR 0x0A] @ fonte cite)"
    unfolding trailing_citation_def fonte_def
    using assms(6,7)
    by (intro exI[of _ "[CHR 0x0A]"] exI[of _ cite] exI[of _ "[]"]) (simp add: is_space_def)
  then have "match_citation_here ([CHR 0x0A] @ fonte cite)" by (rule match_if_trailing)
  then have rs: "re_sub_citation ?a = body"
    using assms(8,9,10) by (intro re_sub_removes_last_citation) (auto simp: trimmed_def)
  have sl: "sublist (fonte cite) ?a"
    by (metis append_assoc sublist_appendI append_Nil2)
  show ?thesis
    using ask_question_cited[of chain query res ?a ds "fonte cite"] assms(1-5) st nf rs sl
    by simp
qed

end
